theory Spec2Isabelle
  imports Main "HOL-Library.Sublist"
begin

section \<open>Strings and JSON values\<close>

text \<open>
  JavaScript strings are modelled as \<^typ>\<open>string\<close> (lists of 8-bit characters, read as the
  code points U+0000 to U+00FF).  A JSON value as it reaches the gateway is a \<open>json\<close>; an
  object is the list of its own properties in the order ECMAScript enumerates them
  (\<open>Object.entries\<close>, \<open>JSON.stringify\<close>).  A number is the text \<open>Number.prototype.toString\<close>
  gives for it, the shortest decimal text that reads back as the same double (\<open>1\<close>,
  \<open>-2.5\<close>, \<open>1e+21\<close>): \<open>JSON.stringify\<close> writes that text, and two numbers are equal under
  \<open>===\<close> exactly when their texts are equal (\<open>-0\<close> is written \<open>0\<close>).  \<open>NaN\<close> and the
  infinities are not JSON.
\<close>

datatype json =
    JUndefined
  | JNull
  | JBool bool
  | JNum string
  | JStr string
  | JArr "json list"
  | JObj "(string \<times> json) list"

type_synonym args = "(string \<times> json) list"

definition dq :: string where
  "dq = [CHR 0x22]"

definition startsWith :: "string \<Rightarrow> string \<Rightarrow> bool" where
  "startsWith s p = prefix p s"

definition endsWith :: "string \<Rightarrow> string \<Rightarrow> bool" where
  "endsWith s p = suffix p s"

fun join :: "string \<Rightarrow> string list \<Rightarrow> string" where
  "join sep [] = []"
| "join sep [x] = x"
| "join sep (x # y # ys) = x @ sep @ join sep (y # ys)"

fun showNat :: "nat \<Rightarrow> string" where
  "showNat n = (if n < 10 then [char_of (48 + n)] else showNat (n div 10) @ [char_of (48 + n mod 10)])"

declare showNat.simps [simp del]

definition hexdigit :: "nat \<Rightarrow> char" where
  "hexdigit n = (if n < 10 then char_of (48 + n) else char_of (87 + n))"

text \<open>\<open>QuoteJSONString\<close> of ECMAScript, one code unit at a time.\<close>

definition quoteChar :: "char \<Rightarrow> string" where
  "quoteChar c =
     (let n = (of_char c :: nat) in
      if n = 8 then [CHR 0x5C, CHR ''b'']
      else if n = 9 then [CHR 0x5C, CHR ''t'']
      else if n = 10 then [CHR 0x5C, CHR ''n'']
      else if n = 12 then [CHR 0x5C, CHR ''f'']
      else if n = 13 then [CHR 0x5C, CHR ''r'']
      else if n = 34 then [CHR 0x5C, CHR 0x22]
      else if n = 92 then [CHR 0x5C, CHR 0x5C]
      else if n < 32 then [CHR 0x5C, CHR ''u'', CHR ''0'', CHR ''0'', hexdigit (n div 16), hexdigit (n mod 16)]
      else [c])"

definition quoteJSON :: "string \<Rightarrow> string" where
  "quoteJSON s = dq @ concat (map quoteChar s) @ dq"

text \<open>
  \<open>JSON.stringify\<close>: \<open>None\<close> is the JavaScript result \<open>undefined\<close>.  A property whose value
  serialises to \<open>undefined\<close> is left out of an object; in an array it becomes \<open>null\<close>.
  Properties are written in enumeration order; keys are not sorted.
\<close>

fun stringify :: "json \<Rightarrow> string option"
  and stringifyElems :: "json list \<Rightarrow> string list"
  and stringifyProps :: "(string \<times> json) list \<Rightarrow> string list"
where
  "stringify JUndefined = None"
| "stringify JNull = Some ''null''"
| "stringify (JBool b) = Some (if b then ''true'' else ''false'')"
| "stringify (JNum n) = Some n"
| "stringify (JStr s) = Some (quoteJSON s)"
| "stringify (JArr xs) = Some (''['' @ join '','' (stringifyElems xs) @ '']'')"
| "stringify (JObj kvs) = Some (''{'' @ join '','' (stringifyProps kvs) @ ''}'')"
| "stringifyElems [] = []"
| "stringifyElems (x # xs) =
     (case stringify x of None \<Rightarrow> ''null'' | Some s \<Rightarrow> s) # stringifyElems xs"
| "stringifyProps [] = []"
| "stringifyProps (kv # kvs) =
     (case stringify (snd kv) of
        None \<Rightarrow> stringifyProps kvs
      | Some s \<Rightarrow> (quoteJSON (fst kv) @ '':'' @ s) # stringifyProps kvs)"

text \<open>The text \<open>JSON.stringify\<close> contributes to a template string (\<open>undefined\<close> prints as such).\<close>

definition stringifyText :: "json \<Rightarrow> string" where
  "stringifyText v = (case stringify v of None \<Rightarrow> ''undefined'' | Some s \<Rightarrow> s)"

text \<open>
  Strict equality \<open>===\<close> and the \<open>SameValueZero\<close> of \<open>Array.prototype.includes\<close>: primitives
  compare by value; an array or object is only equal to itself, and the values compared
  here come from two different sources (the configuration and the call), so they are
  never the same object.
\<close>

fun isPrimitive :: "json \<Rightarrow> bool" where
  "isPrimitive (JArr _) = False"
| "isPrimitive (JObj _) = False"
| "isPrimitive _ = True"

definition strictEq :: "json \<Rightarrow> json \<Rightarrow> bool" where
  "strictEq a b = (isPrimitive a \<and> a = b)"

definition arrayIncludes :: "json list \<Rightarrow> json \<Rightarrow> bool" where
  "arrayIncludes xs v = list_ex (\<lambda>x. strictEq x v) xs"

section \<open>Errors (errors.ts)\<close>

text \<open>
  A thrown value is a \<open>GatewayError\<close> with its code and message, another \<open>Error\<close> with its
  message, or a value that is not an \<open>Error\<close> at all.
\<close>

datatype thrown =
    GatewayError string string
  | OtherError string
  | NonError

definition PolicyDeniedError :: "string \<Rightarrow> string \<Rightarrow> thrown" where
  "PolicyDeniedError tool reason = GatewayError ''POLICY_DENIED'' (''Policy denied: '' @ reason)"

definition TimeoutError :: "string \<Rightarrow> nat \<Rightarrow> thrown" where
  "TimeoutError tool timeoutMs =
     GatewayError ''TIMEOUT'' (''Tool '' @ tool @ '' timed out after '' @ showNat timeoutMs @ ''ms'')"

definition MaxBytesExceededError :: "nat \<Rightarrow> nat \<Rightarrow> thrown" where
  "MaxBytesExceededError maxBytes actualBytes =
     GatewayError ''MAX_BYTES_EXCEEDED''
       (''Response exceeded max bytes: '' @ showNat actualBytes @ '' > '' @ showNat maxBytes)"

definition SecurityError :: "string \<Rightarrow> thrown" where
  "SecurityError message = GatewayError ''SECURITY_ERROR'' message"

definition ConnectorError :: "string \<Rightarrow> string \<Rightarrow> thrown" where
  "ConnectorError connector message =
     GatewayError ''CONNECTOR_ERROR'' (''Connector '' @ connector @ '': '' @ message)"

fun isGatewayError :: "thrown \<Rightarrow> bool" where
  "isGatewayError (GatewayError _ _) = True"
| "isGatewayError _ = False"

fun errorToCode :: "thrown \<Rightarrow> string" where
  "errorToCode (GatewayError code _) = code"
| "errorToCode (OtherError _) = ''INTERNAL_ERROR''"
| "errorToCode NonError = ''UNKNOWN_ERROR''"

fun errorMessage :: "thrown \<Rightarrow> string" where
  "errorMessage (GatewayError _ message) = message"
| "errorMessage (OtherError message) = message"
| "errorMessage NonError = ''Unknown error''"

section \<open>Policy engine (policy.ts)\<close>

record ToolPolicy =
  allow :: "bool option"
  max_bytes :: "nat option"
  timeout_ms :: "nat option"
  arg_allowlist :: "args option"

record PolicyConfig =
  default_deny :: bool
  allow_tools :: "string list"
  deny_tools :: "string list"
  per_tool :: "(string \<times> ToolPolicy) list"
  global_timeout_ms :: nat
  global_max_bytes :: nat

record EffectivePolicy =
  timeoutMs :: nat
  maxBytes :: nat
  argAllowlist :: "args option"

record PolicyDecision =
  allowed :: bool
  reason :: string
  effectivePolicy :: EffectivePolicy

text \<open>
  \<open>new RegExp(pattern)\<close> is the JavaScript engine's: \<open>rx pattern\<close> is \<open>None\<close> when the
  constructor throws a \<open>SyntaxError\<close>, and otherwise the \<open>test\<close> function of the regular
  expression.
\<close>

type_synonym regexp = "string \<Rightarrow> (string \<Rightarrow> bool) option"

definition getEffectivePolicy :: "PolicyConfig \<Rightarrow> string \<Rightarrow> EffectivePolicy" where
  "getEffectivePolicy config tool =
     (case map_of (per_tool config) tool of
        None \<Rightarrow>
          \<lparr>timeoutMs = global_timeout_ms config, maxBytes = global_max_bytes config,
           argAllowlist = None\<rparr>
      | Some toolPolicy \<Rightarrow>
          \<lparr>timeoutMs = (case timeout_ms toolPolicy of None \<Rightarrow> global_timeout_ms config | Some t \<Rightarrow> t),
           maxBytes = (case max_bytes toolPolicy of None \<Rightarrow> global_max_bytes config | Some b \<Rightarrow> b),
           argAllowlist = arg_allowlist toolPolicy\<rparr>)"

text \<open>
  The body of the loop of \<open>checkArgAllowlist\<close> for one argument whose key is in the
  allowlist: \<open>Inr None\<close> is \<open>continue\<close>, \<open>Inr (Some r)\<close> returns the denial with reason \<open>r\<close>,
  \<open>Inl\<close> is the exception of \<open>new RegExp\<close> (its message is the engine's; only its start is
  kept).
\<close>

definition checkArgValue :: "regexp \<Rightarrow> string \<Rightarrow> json \<Rightarrow> json \<Rightarrow> thrown + string option" where
  "checkArgValue rx key val allowedValue =
     (if allowedValue = JBool True then Inr None
      else case allowedValue of
        JArr allowedValues \<Rightarrow>
          if \<not> arrayIncludes allowedValues val
          then Inr (Some (''Argument '' @ dq @ key @ dq @ '' value not in allowed values: ''
                          @ stringifyText allowedValue))
          else Inr None
      | _ \<Rightarrow>
          (case (case allowedValue of
                   JStr s \<Rightarrow> if startsWith s ''regex:'' then Some (drop 6 s) else None
                 | _ \<Rightarrow> None) of
             Some pattern \<Rightarrow>
               (case rx pattern of
                  None \<Rightarrow> Inl (OtherError (''Invalid regular expression: /'' @ pattern @ ''/''))
                | Some test \<Rightarrow>
                    if (case val of JStr s \<Rightarrow> \<not> test s | _ \<Rightarrow> True)
                    then Inr (Some (''Argument '' @ dq @ key @ dq @ '' does not match pattern: '' @ pattern))
                    else Inr None)
           | None \<Rightarrow>
               if \<not> strictEq val allowedValue
               then Inr (Some (''Argument '' @ dq @ key @ dq @ '' must equal: '' @ stringifyText allowedValue))
               else Inr None))"

text \<open>
  \<open>key in allowlist\<close> also finds what a plain object inherits from \<open>Object.prototype\<close>.
  The value read for such a key is a function, or the prototype itself for \<open>__proto__\<close>:
  it is not \<open>true\<close>, an array or a string and is not identical to any argument, so the
  loop ends in its last test, with \<open>JSON.stringify\<close> of that value in the reason.  The
  allowlist has no own key \<open>__proto__\<close>.
\<close>

definition objectPrototypeKeys :: "string list" where
  "objectPrototypeKeys =
     [''constructor'', ''__defineGetter__'', ''__defineSetter__'', ''hasOwnProperty'',
      ''__lookupGetter__'', ''__lookupSetter__'', ''isPrototypeOf'', ''propertyIsEnumerable'',
      ''toString'', ''valueOf'', ''__proto__'', ''toLocaleString'']"

fun checkArgAllowlist :: "regexp \<Rightarrow> args \<Rightarrow> args \<Rightarrow> thrown + (bool \<times> string)" where
  "checkArgAllowlist rx [] allowlist = Inr (True, ''Arguments match allowlist'')"
| "checkArgAllowlist rx (kv # rest) allowlist =
     (case map_of allowlist (fst kv) of
        None \<Rightarrow>
          if fst kv \<in> set objectPrototypeKeys
          then Inr (False, ''Argument '' @ dq @ fst kv @ dq @ '' must equal: ''
                           @ (if fst kv = ''__proto__'' then ''{}'' else ''undefined''))
          else Inr (False, ''Argument '' @ dq @ fst kv @ dq @ '' is not in arg_allowlist'')
      | Some allowedValue \<Rightarrow>
          (case checkArgValue rx (fst kv) (snd kv) allowedValue of
             Inl e \<Rightarrow> Inl e
           | Inr (Some r) \<Rightarrow> Inr (False, r)
           | Inr None \<Rightarrow> checkArgAllowlist rx rest allowlist))"

text \<open>
  \<open>checkPolicy\<close>.  \<open>Inl\<close> is an exception leaving the function (only \<open>new RegExp\<close> can throw).
  The last three steps are shared by the paths that fall out of the per-tool block.
\<close>

definition checkGlobalLists :: "PolicyConfig \<Rightarrow> string \<Rightarrow> EffectivePolicy \<Rightarrow> PolicyDecision" where
  "checkGlobalLists config tool ep =
     (if tool \<in> set (allow_tools config)
      then \<lparr>allowed = True, reason = ''Tool '' @ dq @ tool @ dq @ '' is in allow_tools list'',
            effectivePolicy = ep\<rparr>
      else if default_deny config
      then \<lparr>allowed = False,
            reason = ''Tool '' @ dq @ tool @ dq @ '' not in allow_tools and default_deny is enabled'',
            effectivePolicy = ep\<rparr>
      else \<lparr>allowed = True, reason = ''Allowed by default (default_deny is false)'',
            effectivePolicy = ep\<rparr>)"

definition checkPolicy :: "regexp \<Rightarrow> PolicyConfig \<Rightarrow> string \<Rightarrow> args \<Rightarrow> thrown + PolicyDecision" where
  "checkPolicy rx config tool args =
     (let ep = getEffectivePolicy config tool in
      if tool \<in> set (deny_tools config)
      then Inr \<lparr>allowed = False, reason = ''Tool '' @ dq @ tool @ dq @ '' is in deny_tools list'',
                effectivePolicy = ep\<rparr>
      else case map_of (per_tool config) tool of
        None \<Rightarrow> Inr (checkGlobalLists config tool ep)
      | Some toolPolicy \<Rightarrow>
          if allow toolPolicy = Some False
          then Inr \<lparr>allowed = False,
                    reason = ''Tool '' @ dq @ tool @ dq @ '' is explicitly denied in per_tool policy'',
                    effectivePolicy = ep\<rparr>
          else
            (case (case arg_allowlist toolPolicy of
                     None \<Rightarrow> Inr (True, [])
                   | Some allowlist \<Rightarrow> checkArgAllowlist rx args allowlist) of
               Inl e \<Rightarrow> Inl e
             | Inr argCheck \<Rightarrow>
                 if \<not> fst argCheck
                 then Inr \<lparr>allowed = False, reason = snd argCheck, effectivePolicy = ep\<rparr>
                 else if allow toolPolicy = Some True
                 then Inr \<lparr>allowed = True, reason = ''Allowed by per_tool policy'',
                           effectivePolicy = ep\<rparr>
                 else Inr (checkGlobalLists config tool ep)))"

definition enforce :: "regexp \<Rightarrow> PolicyConfig \<Rightarrow> string \<Rightarrow> args \<Rightarrow> thrown + EffectivePolicy" where
  "enforce rx config tool args =
     (case checkPolicy rx config tool args of
        Inl e \<Rightarrow> Inl e
      | Inr decision \<Rightarrow>
          if \<not> allowed decision then Inl (PolicyDeniedError tool (reason decision))
          else Inr (effectivePolicy decision))"

section \<open>Configuration schema (config.ts)\<close>

text \<open>
  \<open>ToolPolicySchema\<close> and \<open>PolicyConfigSchema\<close>: what \<open>parse\<close> makes of a configuration as
  written in the file.  A record read from the file has every field optional; the schema
  fills in the defaults and rejects a limit that is not positive; \<open>None\<close> is a \<open>ZodError\<close>,
  which \<open>loadConfig\<close> turns into a \<open>ConfigError\<close> (the text of the issues is left out).
\<close>

record RawPolicyConfig =
  raw_default_deny :: "bool option"
  raw_allow_tools :: "string list option"
  raw_deny_tools :: "string list option"
  raw_per_tool :: "(string \<times> ToolPolicy) list option"
  raw_global_timeout_ms :: "nat option"
  raw_global_max_bytes :: "nat option"

definition ConfigError :: "string \<Rightarrow> thrown" where
  "ConfigError message = GatewayError ''CONFIG_ERROR'' message"

definition withDefault :: "'a \<Rightarrow> 'a option \<Rightarrow> 'a" where
  "withDefault d x = (case x of None \<Rightarrow> d | Some v \<Rightarrow> v)"

definition positiveOpt :: "nat option \<Rightarrow> bool" where
  "positiveOpt x = (case x of None \<Rightarrow> True | Some n \<Rightarrow> 0 < n)"

text \<open>
  A value of \<open>arg_allowlist\<close> is a string, an array of strings, a boolean or a number.
\<close>

fun allowlistValueOk :: "json \<Rightarrow> bool" where
  "allowlistValueOk (JStr _) = True"
| "allowlistValueOk (JArr xs) = list_all (\<lambda>x. case x of JStr _ \<Rightarrow> True | _ \<Rightarrow> False) xs"
| "allowlistValueOk (JBool _) = True"
| "allowlistValueOk (JNum _) = True"
| "allowlistValueOk _ = False"

definition parseToolPolicy :: "ToolPolicy \<Rightarrow> ToolPolicy option" where
  "parseToolPolicy raw =
     (if positiveOpt (max_bytes raw) \<and> positiveOpt (timeout_ms raw)
         \<and> (case arg_allowlist raw of
                None \<Rightarrow> True
              | Some allowlist \<Rightarrow> list_all (\<lambda>kv. allowlistValueOk (snd kv)) allowlist)
      then Some \<lparr>allow = Some (withDefault False (allow raw)),
                 max_bytes = max_bytes raw,
                 timeout_ms = timeout_ms raw,
                 arg_allowlist = arg_allowlist raw\<rparr>
      else None)"

fun parsePerTool :: "(string \<times> ToolPolicy) list \<Rightarrow> (string \<times> ToolPolicy) list option" where
  "parsePerTool [] = Some []"
| "parsePerTool (kv # rest) =
     (case parseToolPolicy (snd kv) of
        None \<Rightarrow> None
      | Some tp \<Rightarrow>
          (case parsePerTool rest of
             None \<Rightarrow> None
           | Some rest' \<Rightarrow> Some ((fst kv, tp) # rest')))"

definition parsePolicyConfig :: "RawPolicyConfig \<Rightarrow> thrown + PolicyConfig" where
  "parsePolicyConfig raw =
     (case parsePerTool (withDefault [] (raw_per_tool raw)) of
        None \<Rightarrow> Inl (ConfigError ''Invalid configuration'')
      | Some pt \<Rightarrow>
          if positiveOpt (raw_global_timeout_ms raw) \<and> positiveOpt (raw_global_max_bytes raw)
          then Inr \<lparr>default_deny = withDefault True (raw_default_deny raw),
                    allow_tools = withDefault [] (raw_allow_tools raw),
                    deny_tools = withDefault [] (raw_deny_tools raw),
                    per_tool = pt,
                    global_timeout_ms = withDefault 30000 (raw_global_timeout_ms raw),
                    global_max_bytes = withDefault (10 * 1024 * 1024) (raw_global_max_bytes raw)\<rparr>
          else Inl (ConfigError ''Invalid configuration''))"

section \<open>Audit logger (audit.ts)\<close>

datatype decision = Allow | Deny

record AuditConfig =
  enabled :: bool
  file_path :: "string option"

record AuditEvent =
  timestamp :: nat
  request_id :: string
  tool :: string
  actor :: string
  args_sha256 :: string
  decision :: decision
  event_reason :: string
  duration_ms :: int
  result_bytes :: nat
  error_code :: "string option"

record AuditContext =
  requestId :: string
  ctx_tool :: string
  ctx_actor :: string
  ctx_args :: json
  startTime :: nat

text \<open>
  What the logger takes from its platform: the SHA-256 digest in hexadecimal of a string
  (\<open>createHash('sha256').update(str).digest('hex')\<close>), the identifier \<open>randomUUID()\<close>
  returns for this invocation, and the two readings of the clock in milliseconds, at the
  creation of the context and at the emission of the event (\<open>timestamp\<close> is the latter,
  before \<open>toISOString\<close>).
\<close>

record Platform =
  sha256hex :: "string \<Rightarrow> string"
  randomUUID :: string
  nowAtStart :: nat
  nowAtLog :: nat
  newRegExp :: regexp

definition createContext :: "Platform \<Rightarrow> string \<Rightarrow> string \<Rightarrow> json \<Rightarrow> AuditContext" where
  "createContext pf actorName toolName a =
     \<lparr>requestId = randomUUID pf, ctx_tool = toolName, ctx_actor = actorName, ctx_args = a,
      startTime = nowAtStart pf\<rparr>"

text \<open>\<open>args ?? {}\<close>\<close>

fun orEmptyObject :: "json \<Rightarrow> json" where
  "orEmptyObject JUndefined = JObj []"
| "orEmptyObject JNull = JObj []"
| "orEmptyObject v = v"

text \<open>
  The string that is hashed, \<open>JSON.stringify(args ?? {})\<close>.  \<open>stringify\<close> yields \<open>undefined\<close>
  for the value \<open>undefined\<close> alone, which \<open>??\<close> has replaced, so the last case is never taken.
\<close>

definition hashInput :: "json \<Rightarrow> string" where
  "hashInput a = (case stringify (orEmptyObject a) of Some s \<Rightarrow> s | None \<Rightarrow> [])"

definition hashArgs :: "Platform \<Rightarrow> json \<Rightarrow> string" where
  "hashArgs pf a = sha256hex pf (hashInput a)"

text \<open>\<open>Buffer.byteLength(s, 'utf-8')\<close> for code points up to U+00FF.\<close>

definition byteLength :: "string \<Rightarrow> nat" where
  "byteLength s = sum_list (map (\<lambda>c. if (of_char c :: nat) < 128 then 1 else 2) s)"

definition getResultBytes :: "json \<Rightarrow> nat" where
  "getResultBytes result =
     (if result = JUndefined \<or> result = JNull then 0
      else case stringify result of None \<Rightarrow> 0 | Some s \<Rightarrow> byteLength s)"

text \<open>
  \<open>log\<close> returns the events it writes: none when the logger is disabled.  A missing
  \<open>result\<close> is \<open>JUndefined\<close>; a missing or empty \<open>errorCode\<close> leaves \<open>error_code\<close> out.
\<close>

definition log :: "Platform \<Rightarrow> AuditConfig \<Rightarrow> AuditContext \<Rightarrow> decision \<Rightarrow> string \<Rightarrow> json
    \<Rightarrow> string option \<Rightarrow> AuditEvent list" where
  "log pf config ctx d r result errorCode =
     (if \<not> enabled config then []
      else [\<lparr>timestamp = nowAtLog pf,
             request_id = requestId ctx,
             tool = ctx_tool ctx,
             actor = ctx_actor ctx,
             args_sha256 = hashArgs pf (ctx_args ctx),
             decision = d,
             event_reason = r,
             duration_ms = int (nowAtLog pf) - int (startTime ctx),
             result_bytes = getResultBytes result,
             error_code = (case errorCode of
                             None \<Rightarrow> None
                           | Some c \<Rightarrow> if c = [] then None else Some c)\<rparr>])"

definition logSuccess :: "Platform \<Rightarrow> AuditConfig \<Rightarrow> AuditContext \<Rightarrow> json \<Rightarrow> AuditEvent list" where
  "logSuccess pf config ctx result = log pf config ctx Allow ''execution_success'' result None"

definition logDenied :: "Platform \<Rightarrow> AuditConfig \<Rightarrow> AuditContext \<Rightarrow> string \<Rightarrow> AuditEvent list" where
  "logDenied pf config ctx r = log pf config ctx Deny r JUndefined (Some ''POLICY_DENIED'')"

definition logError :: "Platform \<Rightarrow> AuditConfig \<Rightarrow> AuditContext \<Rightarrow> string \<Rightarrow> string
    \<Rightarrow> AuditEvent list" where
  "logError pf config ctx errorCode message =
     log pf config ctx Allow (''error: '' @ message) JUndefined (Some errorCode)"

section \<open>Tool registry and invocation pipeline (mcp.ts)\<close>

text \<open>
  A handler either returns a value or throws, some milliseconds after it was started, or
  never settles.  \<open>inputSchema\<close> is the schema's \<open>parse\<close>: the parsed value, the issues of a
  \<open>ZodError\<close> already formatted as \<open>validateArgs\<close> formats them, or another exception.
\<close>

datatype outcome = Returns json | Throws thrown

datatype parsed = Parsed args | ZodError string | ParseFailed

record ToolDefinition =
  name :: string
  description :: string
  inputSchema :: "args \<Rightarrow> parsed"
  handler :: "args \<Rightarrow> (nat \<times> outcome) option"

record ToolResult =
  success :: bool
  result :: "json option"
  error :: "(string \<times> string) option"
  resultRequestId :: string

record MCPGateway =
  tools :: "(string \<times> ToolDefinition) list"
  policy :: PolicyConfig
  audit :: AuditConfig
  gatewayActor :: string

text \<open>
  The registry is a \<open>Map\<close>: here the list of its entries in insertion order, without
  duplicate keys.  \<open>registerTool\<close> throws on a name that is present and appends otherwise.
\<close>

definition registerTool :: "MCPGateway \<Rightarrow> ToolDefinition \<Rightarrow> thrown + MCPGateway" where
  "registerTool gw t =
     (if map_of (tools gw) (name t) \<noteq> None
      then Inl (OtherError (''Tool '' @ dq @ name t @ dq @ '' is already registered''))
      else Inr (gw\<lparr>tools := tools gw @ [(name t, t)]\<rparr>))"

text \<open>
  \<open>registerTools\<close> returns the gateway as the loop leaves it, and the exception if one
  ended the loop.
\<close>

fun registerTools :: "MCPGateway \<Rightarrow> ToolDefinition list \<Rightarrow> MCPGateway \<times> thrown option" where
  "registerTools gw [] = (gw, None)"
| "registerTools gw (t # ts) =
     (case registerTool gw t of
        Inl e \<Rightarrow> (gw, Some e)
      | Inr gw' \<Rightarrow> registerTools gw' ts)"

definition listTools :: "MCPGateway \<Rightarrow> string list" where
  "listTools gw = map fst (tools gw)"

definition validateArgs :: "ToolDefinition \<Rightarrow> args \<Rightarrow> string + args" where
  "validateArgs t a =
     (case inputSchema t a of
        Parsed data \<Rightarrow> Inr data
      | ZodError issues \<Rightarrow> Inl issues
      | ParseFailed \<Rightarrow> Inl ''Validation failed'')"

text \<open>
  \<open>setTimeout\<close> takes a delay from 1 to 2147483647 milliseconds and replaces any other by 1.
\<close>

definition timerDelay :: "nat \<Rightarrow> nat" where
  "timerDelay ms = (if ms < 1 \<or> 2147483647 < ms then 1 else ms)"

text \<open>
  \<open>executeWithTimeout\<close>: the timer is set before the handler is started, and the promise
  settles with whichever comes first.  A handler that settles without waiting (elapsed 0)
  comes before every timer.
\<close>

definition executeWithTimeout :: "string \<Rightarrow> (nat \<times> outcome) option \<Rightarrow> nat \<Rightarrow> thrown + json" where
  "executeWithTimeout toolName run timeout =
     (case run of
        None \<Rightarrow> Inl (TimeoutError toolName timeout)
      | Some (elapsed, out) \<Rightarrow>
          if elapsed < timerDelay timeout
          then (case out of Returns v \<Rightarrow> Inr v | Throws e \<Rightarrow> Inl e)
          else Inl (TimeoutError toolName timeout))"

definition enforceMaxBytes :: "json \<Rightarrow> nat \<Rightarrow> thrown + unit" where
  "enforceMaxBytes res limit =
     (case stringify res of
        None \<Rightarrow> Inl (OtherError ''The first argument must be of type string or an instance of Buffer'')
      | Some s \<Rightarrow>
          if byteLength s > limit then Inl (MaxBytesExceededError limit (byteLength s))
          else Inr ())"

text \<open>Steps 3 to 5 of \<open>invokeTool\<close>, the part of the \<open>try\<close> block that can throw.\<close>

definition enforceAndExecute :: "Platform \<Rightarrow> MCPGateway \<Rightarrow> ToolDefinition \<Rightarrow> string \<Rightarrow> args \<Rightarrow> args
    \<Rightarrow> thrown + json" where
  "enforceAndExecute pf gw t toolName a data =
     (case enforce (newRegExp pf) (policy gw) toolName a of
        Inl e \<Rightarrow> Inl e
      | Inr ep \<Rightarrow>
          (case executeWithTimeout toolName (handler t data) (timeoutMs ep) of
             Inl e \<Rightarrow> Inl e
           | Inr r \<Rightarrow>
               (case enforceMaxBytes r (maxBytes ep) of
                  Inl e \<Rightarrow> Inl e
                | Inr _ \<Rightarrow> Inr r)))"

definition failure :: "string \<Rightarrow> string \<Rightarrow> string \<Rightarrow> ToolResult" where
  "failure code message rid =
     \<lparr>success = False, result = None, error = Some (code, message), resultRequestId = rid\<rparr>"

definition invokeTool :: "Platform \<Rightarrow> MCPGateway \<Rightarrow> string \<Rightarrow> args \<Rightarrow> ToolResult \<times> AuditEvent list" where
  "invokeTool pf gw toolName a =
     (let ctx = createContext pf (gatewayActor gw) toolName (JObj a) in
      case map_of (tools gw) toolName of
        None \<Rightarrow>
          (failure ''TOOL_NOT_FOUND'' (''Tool '' @ dq @ toolName @ dq @ '' not found'') (requestId ctx),
           logDenied pf (audit gw) ctx (''Tool '' @ dq @ toolName @ dq @ '' not found''))
      | Some t \<Rightarrow>
          (case validateArgs t a of
             Inl err \<Rightarrow>
               (failure ''VALIDATION_ERROR'' err (requestId ctx),
                logDenied pf (audit gw) ctx (''Validation failed: '' @ err))
           | Inr data \<Rightarrow>
               (case enforceAndExecute pf gw t toolName a data of
                  Inr r \<Rightarrow>
                    (\<lparr>success = True, result = Some r, error = None,
                      resultRequestId = requestId ctx\<rparr>,
                     logSuccess pf (audit gw) ctx r)
                | Inl err \<Rightarrow>
                    (failure (errorToCode err) (errorMessage err) (requestId ctx),
                     if isGatewayError err \<and> errorToCode err = ''POLICY_DENIED''
                     then logDenied pf (audit gw) ctx (errorMessage err)
                     else logError pf (audit gw) ctx (errorToCode err) (errorMessage err)))))"

section \<open>String functions of the platform\<close>

text \<open>
  \<open>String.prototype.split\<close> with a one-character separator, \<open>includes\<close>, \<open>trim\<close>, and the
  case mappings, on the code points up to U+00FF.  White space is what \<open>\s\<close> and \<open>trim\<close>
  recognise among them; line terminators are what \<open>.\<close> does not match.

  \<open>toUpperCase\<close> maps the letters \<open>a\<close> to \<open>z\<close> and U+00E0 to U+00FE (without the division
  sign U+00F7) to their capitals and writes U+00DF as \<open>SS\<close>.  The capitals of U+00B5 and
  U+00FF are U+039C and U+0178, outside the range: the two characters stand for their
  capitals here.  None of the four is a word character, white space, or a character of
  a keyword, so no test of this theory tells them apart.  \<open>toLowerCase\<close> maps \<open>A\<close> to \<open>Z\<close>
  and U+00C0 to U+00DE (without the multiplication sign U+00D7) to their small letters.

  \<open>canonicalize\<close> is the case folding of a regular expression with the flag \<open>i\<close>: the
  capital of a character when that is a single character, and never an ASCII character
  for a character that is not ASCII.
\<close>

fun splitOn :: "char \<Rightarrow> string \<Rightarrow> string list" where
  "splitOn c [] = [[]]"
| "splitOn c (x # xs) =
     (if x = c then [] # splitOn c xs
      else (case splitOn c xs of [] \<Rightarrow> [[x]] | s # ss \<Rightarrow> (x # s) # ss))"

fun strIncludes :: "string \<Rightarrow> string \<Rightarrow> bool" where
  "strIncludes [] sub = (sub = [])"
| "strIncludes (c # cs) sub = (prefix sub (c # cs) \<or> strIncludes cs sub)"

definition isSpace :: "char \<Rightarrow> bool" where
  "isSpace c = (let n = (of_char c :: nat) in (9 \<le> n \<and> n \<le> 13) \<or> n = 32 \<or> n = 160)"

definition isLineTerminator :: "char \<Rightarrow> bool" where
  "isLineTerminator c = (c = CHR 0x0A \<or> c = CHR 0x0D)"

definition isDigit :: "char \<Rightarrow> bool" where
  "isDigit c = (let n = (of_char c :: nat) in 48 \<le> n \<and> n \<le> 57)"

definition isWordChar :: "char \<Rightarrow> bool" where
  "isWordChar c =
     (let n = (of_char c :: nat) in
      (48 \<le> n \<and> n \<le> 57) \<or> (65 \<le> n \<and> n \<le> 90) \<or> (97 \<le> n \<and> n \<le> 122) \<or> n = 95)"

definition canonicalize :: "char \<Rightarrow> char" where
  "canonicalize c =
     (let n = (of_char c :: nat) in
      if (97 \<le> n \<and> n \<le> 122) \<or> (224 \<le> n \<and> n \<le> 254 \<and> n \<noteq> 247) then char_of (n - 32) else c)"

definition upperChar :: "char \<Rightarrow> string" where
  "upperChar c = (if (of_char c :: nat) = 223 then ''SS'' else [canonicalize c])"

definition lowerChar :: "char \<Rightarrow> char" where
  "lowerChar c =
     (let n = (of_char c :: nat) in
      if (65 \<le> n \<and> n \<le> 90) \<or> (192 \<le> n \<and> n \<le> 222 \<and> n \<noteq> 215) then char_of (n + 32) else c)"

definition toUpperCase :: "string \<Rightarrow> string" where
  "toUpperCase s = concat (map upperChar s)"

definition toLowerCase :: "string \<Rightarrow> string" where
  "toLowerCase s = map lowerChar s"

definition trim :: "string \<Rightarrow> string" where
  "trim s = rev (dropWhile isSpace (rev (dropWhile isSpace s)))"

section \<open>Filesystem connector (filesystem.ts)\<close>

text \<open>
  \<open>resolve\<close> and \<open>normalize\<close> of the POSIX \<open>path\<close> module.  \<open>normalizeString\<close> drops empty
  and \<open>.\<close> segments and lets \<open>..\<close> remove the segment before it; above the root \<open>..\<close> is
  dropped, or kept when the path is relative.  \<open>cwd\<close> is \<open>process.cwd()\<close>.
\<close>

fun normalizeSegments :: "bool \<Rightarrow> string list \<Rightarrow> string list \<Rightarrow> string list" where
  "normalizeSegments allowAboveRoot acc [] = acc"
| "normalizeSegments allowAboveRoot acc (seg # segs) =
     (if seg = [] \<or> seg = ''.'' then normalizeSegments allowAboveRoot acc segs
      else if seg = ''..'' then
        (if acc \<noteq> [] \<and> last acc \<noteq> ''..'' then normalizeSegments allowAboveRoot (butlast acc) segs
         else if allowAboveRoot then normalizeSegments allowAboveRoot (acc @ [''..'']) segs
         else normalizeSegments allowAboveRoot acc segs)
      else normalizeSegments allowAboveRoot (acc @ [seg]) segs)"

definition normalizeString :: "string \<Rightarrow> bool \<Rightarrow> string" where
  "normalizeString path allowAboveRoot =
     join ''/'' (normalizeSegments allowAboveRoot [] (splitOn CHR ''/'' path))"

definition isAbsolute :: "string \<Rightarrow> bool" where
  "isAbsolute path = (case path of [] \<Rightarrow> False | c # _ \<Rightarrow> c = CHR ''/'')"

definition resolve :: "string \<Rightarrow> string \<Rightarrow> string" where
  "resolve cwd path =
     (let fromPath = (if path = [] then [] else path @ ''/'');
          resolvedPath = (if isAbsolute path \<or> cwd = [] then fromPath else cwd @ ''/'' @ fromPath);
          resolvedAbsolute = (isAbsolute path \<or> isAbsolute cwd);
          normalized = normalizeString resolvedPath (\<not> resolvedAbsolute)
      in if resolvedAbsolute then ''/'' @ normalized
         else if normalized \<noteq> [] then normalized else ''.'')"

definition normalize :: "string \<Rightarrow> string" where
  "normalize path =
     (if path = [] then ''.''
      else
        let trailingSeparator = (last path = CHR ''/'');
            normalized = normalizeString path (\<not> isAbsolute path)
        in if normalized = []
           then (if isAbsolute path then ''/'' else if trailingSeparator then ''./'' else ''.'')
           else (if isAbsolute path then ''/'' else []) @ normalized
                @ (if trailingSeparator then ''/'' else []))"

record FilesystemConfig =
  fs_enabled :: bool
  allowed_paths :: "string list"
  denied_paths :: "string list"
  max_file_size :: nat

definition isPathAllowed :: "string \<Rightarrow> string \<Rightarrow> string list \<Rightarrow> string list \<Rightarrow> bool" where
  "isPathAllowed cwd targetPath allowedPaths deniedPaths =
     (let normalizedTarget = normalize (resolve cwd targetPath) in
      if list_ex (\<lambda>deniedPath. startsWith normalizedTarget (normalize (resolve cwd deniedPath)))
           deniedPaths
      then False
      else if length allowedPaths = 0 then False
      else list_ex (\<lambda>allowedPath. startsWith normalizedTarget (normalize (resolve cwd allowedPath)))
             allowedPaths)"

definition validatePath :: "string \<Rightarrow> string \<Rightarrow> string list \<Rightarrow> string list \<Rightarrow> thrown + string" where
  "validatePath cwd path allowedPaths deniedPaths =
     (let normalizedPath = normalize (resolve cwd path) in
      if strIncludes path ''..'' \<and> \<not> isPathAllowed cwd normalizedPath allowedPaths deniedPaths
      then Inl (SecurityError (''Path traversal attempt detected: '' @ path))
      else if \<not> isPathAllowed cwd normalizedPath allowedPaths deniedPaths
      then Inl (SecurityError (''Path not in allowed paths: '' @ path))
      else Inr normalizedPath)"

text \<open>
  The handlers of \<open>fs.readFile\<close> and \<open>fs.listDir\<close>, from the line after the schema's \<open>parse\<close>:
  the path is validated first, outside the \<open>try\<close> block, and what the calls on the
  filesystem make of the validated path (\<open>stat\<close>, \<open>readFile\<close>, \<open>readdir\<close>) is \<open>io\<close>.
\<close>

definition fsReadFile :: "FilesystemConfig \<Rightarrow> string \<Rightarrow> (string \<Rightarrow> outcome) \<Rightarrow> string \<Rightarrow> outcome" where
  "fsReadFile config cwd io path =
     (case validatePath cwd path (allowed_paths config) (denied_paths config) of
        Inl e \<Rightarrow> Throws e
      | Inr normalizedPath \<Rightarrow> io normalizedPath)"

definition fsListDir :: "FilesystemConfig \<Rightarrow> string \<Rightarrow> (string \<Rightarrow> outcome) \<Rightarrow> string \<Rightarrow> outcome" where
  "fsListDir config cwd io path =
     (case validatePath cwd path (allowed_paths config) (denied_paths config) of
        Inl e \<Rightarrow> Throws e
      | Inr normalizedPath \<Rightarrow> io normalizedPath)"

section \<open>HTTP connector (httpFetch.ts)\<close>

text \<open>
  \<open>new URL(url)\<close> is the platform's parser: \<open>None\<close> when it throws, and otherwise the two
  components the connector reads.
\<close>

record URL =
  protocol :: string
  hostname :: string

type_synonym urlParser = "string \<Rightarrow> URL option"

record HttpFetchConfig =
  http_enabled :: bool
  allowed_domains :: "string list"
  denied_domains :: "string list"
  max_response_bytes :: nat
  http_timeout_ms :: nat

definition deniedMatches :: "string \<Rightarrow> string \<Rightarrow> bool" where
  "deniedMatches host deniedDomain =
     (let normalizedDenied = toLowerCase deniedDomain in
      host = normalizedDenied \<or> endsWith host (''.'' @ normalizedDenied))"

definition allowedMatches :: "string \<Rightarrow> string \<Rightarrow> bool" where
  "allowedMatches host allowedDomain =
     (let normalizedAllowed = toLowerCase allowedDomain in
      if host = normalizedAllowed \<or> endsWith host (''.'' @ normalizedAllowed) then True
      else if startsWith normalizedAllowed ''*.'' then
        (let baseDomain = drop 2 normalizedAllowed in
         host = baseDomain \<or> endsWith host (''.'' @ baseDomain))
      else False)"

definition isDomainAllowed :: "urlParser \<Rightarrow> string \<Rightarrow> string list \<Rightarrow> string list \<Rightarrow> bool" where
  "isDomainAllowed parseURL url allowedDomains deniedDomains =
     (case parseURL url of
        None \<Rightarrow> False
      | Some parsed \<Rightarrow>
          let host = toLowerCase (hostname parsed) in
          if list_ex (deniedMatches host) deniedDomains then False
          else if length allowedDomains = 0 then False
          else list_ex (allowedMatches host) allowedDomains)"

definition blockedHosts :: "string list" where
  "blockedHosts = [''localhost'', ''127.0.0.1'', ''0.0.0.0'', ''::1'']"

text \<open>The four \<open>blockedPatterns\<close>, each anchored at the start of the host name.\<close>

definition matches172 :: "string \<Rightarrow> bool" where
  "matches172 host =
     (startsWith host ''172.'' \<and>
      (case drop 4 host of
         a # b # c # _ \<Rightarrow>
           ((a = CHR ''1'' \<and> b \<in> set ''6789'') \<or> (a = CHR ''2'' \<and> isDigit b)
            \<or> (a = CHR ''3'' \<and> b \<in> set ''01'')) \<and> c = CHR ''.''
       | _ \<Rightarrow> False))"

definition matchesBlockedPattern :: "string \<Rightarrow> bool" where
  "matchesBlockedPattern host =
     (startsWith host ''10.'' \<or> matches172 host \<or> startsWith host ''192.168.''
      \<or> startsWith host ''169.254.'')"

definition validateUrl :: "urlParser \<Rightarrow> string \<Rightarrow> HttpFetchConfig \<Rightarrow> thrown + URL" where
  "validateUrl parseURL url config =
     (case parseURL url of
        None \<Rightarrow> Inl (SecurityError (''Invalid URL: '' @ url))
      | Some parsed \<Rightarrow>
          let host = toLowerCase (hostname parsed) in
          if protocol parsed \<notin> set [''http:'', ''https:'']
          then Inl (SecurityError (''Invalid protocol: '' @ protocol parsed
                                   @ ''. Only http and https are allowed.''))
          else if host \<in> set blockedHosts
          then Inl (SecurityError (''Access to '' @ host @ '' is blocked for security reasons''))
          else if matchesBlockedPattern host
          then Inl (SecurityError (''Access to internal IP ranges is blocked: '' @ host))
          else if \<not> isDomainAllowed parseURL url (allowed_domains config) (denied_domains config)
          then Inl (SecurityError (''Domain not in allowed list: '' @ host))
          else Inr parsed)"

text \<open>
  The handler of \<open>web.fetch\<close>, from the line after the schema's \<open>parse\<close>: the URL is validated
  first, outside the \<open>try\<close> block; \<open>fetchIt\<close> is the request and the reading of the response.
\<close>

definition webFetch :: "HttpFetchConfig \<Rightarrow> urlParser \<Rightarrow> (URL \<Rightarrow> outcome) \<Rightarrow> string \<Rightarrow> outcome" where
  "webFetch config parseURL fetchIt url =
     (case validateUrl parseURL url config of
        Inl e \<Rightarrow> Throws e
      | Inr validatedUrl \<Rightarrow> fetchIt validatedUrl)"

section \<open>PostgreSQL connector (postgresReadOnly.ts)\<close>

definition BLOCKED_KEYWORDS :: "string list" where
  "BLOCKED_KEYWORDS =
     [''INSERT'', ''UPDATE'', ''DELETE'', ''DROP'', ''ALTER'', ''CREATE'', ''TRUNCATE'', ''GRANT'',
      ''REVOKE'', ''EXECUTE'', ''CALL'', ''COPY'', ''LOAD'', ''SET'', ''LOCK'', ''UNLOCK'']"

text \<open>\<open>replace(/--.*$/gm, '')\<close>: from \<open>--\<close> up to the line terminator, which stays.\<close>

fun stripLineComments :: "bool \<Rightarrow> string \<Rightarrow> string" where
  "stripLineComments inComment [] = []"
| "stripLineComments True (c # cs) =
     (if isLineTerminator c then c # stripLineComments False cs else stripLineComments True cs)"
| "stripLineComments False [c] = [c]"
| "stripLineComments False (c # d # cs) =
     (if c = CHR ''-'' \<and> d = CHR ''-'' then stripLineComments True cs
      else c # stripLineComments False (d # cs))"

text \<open>
  \<open>replace(/\/\*[\s\S]*?\*\//g, '')\<close>: from \<open>/*\<close> to the first \<open>*/\<close> that starts after it; an
  opening without a closing is left in place.  \<open>afterClose\<close> is the text after the first \<open>*/\<close>.
\<close>

fun afterClose :: "string \<Rightarrow> string option" where
  "afterClose (c # d # r) = (if c = CHR ''*'' \<and> d = CHR ''/'' then Some r else afterClose (d # r))"
| "afterClose _ = None"

lemma afterClose_shorter: "afterClose s = Some r \<Longrightarrow> length r < length s"
  by (induction s arbitrary: r rule: afterClose.induct) (auto split: if_splits)

function stripBlockComments :: "string \<Rightarrow> string" where
  "stripBlockComments [] = []"
| "stripBlockComments [c] = [c]"
| "stripBlockComments (c # d # r) =
     (if c = CHR ''/'' \<and> d = CHR ''*'' then
        (case afterClose r of
           Some rest \<Rightarrow> stripBlockComments rest
         | None \<Rightarrow> c # stripBlockComments (d # r))
      else c # stripBlockComments (d # r))"
  by pat_completeness auto
termination
  by (relation "measure length") (auto dest: afterClose_shorter)

text \<open>\<open>replace(/\s+/g, ' ')\<close>\<close>

fun collapseWhitespace :: "bool \<Rightarrow> string \<Rightarrow> string" where
  "collapseWhitespace inRun [] = []"
| "collapseWhitespace inRun (c # cs) =
     (if isSpace c then (if inRun then collapseWhitespace True cs
                         else CHR '' '' # collapseWhitespace True cs)
      else c # collapseWhitespace False cs)"

definition normalizeSql :: "string \<Rightarrow> string" where
  "normalizeSql sql =
     toUpperCase (trim (collapseWhitespace False (stripBlockComments (stripLineComments False sql))))"

text \<open>
  \<open>new RegExp(`\\b${keyword}\\b`, 'i').test(text)\<close> for a keyword made of word characters:
  an occurrence of the keyword, compared without regard to case, that neither follows nor
  precedes a word character.  \<open>afterWord\<close> says whether the character before is one.
\<close>

fun testWord :: "bool \<Rightarrow> string \<Rightarrow> string \<Rightarrow> bool" where
  "testWord afterWord keyword [] = False"
| "testWord afterWord keyword (c # cs) =
     ((\<not> afterWord
        \<and> map canonicalize (take (length keyword) (c # cs)) = map canonicalize keyword
        \<and> (case drop (length keyword) (c # cs) of [] \<Rightarrow> True | x # _ \<Rightarrow> \<not> isWordChar x))
      \<or> testWord (isWordChar c) keyword cs)"

definition dangerousFunctions :: "string list" where
  "dangerousFunctions =
     [''PG_READ_FILE'', ''PG_WRITE_FILE'', ''PG_FILE_WRITE'', ''LO_IMPORT'', ''LO_EXPORT'', ''COPY'']"

definition statementParts :: "string \<Rightarrow> string list" where
  "statementParts text = filter (\<lambda>p. length (trim p) > 0) (splitOn CHR '';'' text)"

definition validateReadOnlyQuery :: "string \<Rightarrow> thrown + unit" where
  "validateReadOnlyQuery sql =
     (let normalizedSql = normalizeSql sql in
      if strIncludes normalizedSql '';'' \<and> length (statementParts normalizedSql) > 1
      then Inl (SecurityError
                  ''Multiple statements not allowed. Only single SELECT queries are permitted.'')
      else case find (\<lambda>keyword. testWord False keyword normalizedSql) BLOCKED_KEYWORDS of
        Some keyword \<Rightarrow>
          Inl (SecurityError (''SQL keyword '' @ dq @ keyword @ dq
                              @ '' is not allowed. Only SELECT queries are permitted.''))
      | None \<Rightarrow>
          let queryStart = takeWhile (\<lambda>c. \<not> isSpace c) normalizedSql in
          if queryStart \<notin> set [''SELECT'', ''WITH'', ''EXPLAIN'']
          then Inl (SecurityError (''Query must start with SELECT, WITH, or EXPLAIN. Got: ''
                                   @ queryStart))
          else case find (\<lambda>func. strIncludes normalizedSql func) dangerousFunctions of
            Some func \<Rightarrow>
              Inl (SecurityError (''Function '' @ dq @ func @ dq
                                  @ '' is not allowed for security reasons.''))
          | None \<Rightarrow> Inr ())"

text \<open>
  The handler of \<open>db.query\<close>, from the line after the schema's \<open>parse\<close>: the query is
  verified first, outside the \<open>try\<close> block, and the string the caller gave, not its
  normalised form, goes to \<open>client.query\<close>, which is \<open>execute\<close> here.
\<close>

definition dbQuery :: "(string \<Rightarrow> json list \<Rightarrow> outcome) \<Rightarrow> string \<Rightarrow> json list \<Rightarrow> outcome" where
  "dbQuery execute sql params =
     (case validateReadOnlyQuery sql of
        Inl e \<Rightarrow> Throws e
      | Inr _ \<Rightarrow> execute sql params)"

section \<open>The properties in the words of the specification\<close>

text \<open>
  An entry of an argument allowlist accepts a value: \<open>true\<close> accepts any value, a list
  accepts its literal members, a string starting with \<open>regex:\<close> accepts the strings the
  rest of it matches, and any other literal accepts itself.
\<close>

definition entryAccepts :: "regexp \<Rightarrow> json \<Rightarrow> json \<Rightarrow> bool" where
  "entryAccepts rx entry v =
     (if entry = JBool True then True
      else case entry of
        JArr literals \<Rightarrow> v \<in> set (filter isPrimitive literals)
      | JStr s \<Rightarrow>
          if prefix ''regex:'' s
          then (case rx (drop 6 s) of
                  None \<Rightarrow> False
                | Some test \<Rightarrow> (case v of JStr str \<Rightarrow> test str | _ \<Rightarrow> False))
          else v = JStr s
      | _ \<Rightarrow> isPrimitive entry \<and> v = entry)"

text \<open>
  An allowlist is violated by the arguments when a supplied key has no entry, or has an
  entry that does not accept the supplied value.
\<close>

definition allowlistViolated :: "regexp \<Rightarrow> args \<Rightarrow> args \<Rightarrow> bool" where
  "allowlistViolated rx a allowlist =
     list_ex (\<lambda>kv. case map_of allowlist (fst kv) of
                     None \<Rightarrow> True
                   | Some entry \<Rightarrow> \<not> entryAccepts rx entry (snd kv)) a"

text \<open>
  The decision order of the policy engine, step by step: \<open>deny_tools\<close>; the per-tool
  record (\<open>allow\<close> explicitly false, then a violated allowlist, then \<open>allow\<close> explicitly
  true); \<open>allow_tools\<close>; \<open>default_deny\<close>; allow.
\<close>

definition decisionOrder :: "regexp \<Rightarrow> PolicyConfig \<Rightarrow> string \<Rightarrow> args \<Rightarrow> bool" where
  "decisionOrder rx config t a =
     (let entry = map_of (per_tool config) t in
      if t \<in> set (deny_tools config) then False
      else if (case entry of Some tp \<Rightarrow> allow tp = Some False | None \<Rightarrow> False) then False
      else if (case entry of
                 Some tp \<Rightarrow> (case arg_allowlist tp of
                               Some allowlist \<Rightarrow> allowlistViolated rx a allowlist
                             | None \<Rightarrow> False)
               | None \<Rightarrow> False) then False
      else if (case entry of Some tp \<Rightarrow> allow tp = Some True | None \<Rightarrow> False) then True
      else if t \<in> set (allow_tools config) then True
      else if default_deny config then False
      else True)"

text \<open>Every \<open>regex:\<close> entry of the tool's allowlist is a pattern the engine accepts.\<close>

definition patternsCompile :: "regexp \<Rightarrow> PolicyConfig \<Rightarrow> string \<Rightarrow> bool" where
  "patternsCompile rx config t =
     (case map_of (per_tool config) t of
        None \<Rightarrow> True
      | Some tp \<Rightarrow>
          (case arg_allowlist tp of
             None \<Rightarrow> True
           | Some allowlist \<Rightarrow>
               list_all (\<lambda>kv. case snd kv of
                                 JStr s \<Rightarrow> \<not> prefix ''regex:'' s \<or> rx (drop 6 s) \<noteq> None
                               | _ \<Rightarrow> True) allowlist))"


section \<open>Example configurations\<close>

text \<open>
  The per-tool override of the security guide, for a tool that \<open>allow_tools\<close> lists.
\<close>

definition securityGuidePolicy :: RawPolicyConfig where
  "securityGuidePolicy =
     \<lparr>raw_default_deny = Some True,
      raw_allow_tools = Some [''db.query''],
      raw_deny_tools = None,
      raw_per_tool = Some [(''db.query'',
         \<lparr>allow = None, max_bytes = Some 52428800, timeout_ms = Some 60000, arg_allowlist = None\<rparr>)],
      raw_global_timeout_ms = Some 30000,
      raw_global_max_bytes = Some 10485760\<rparr>"

text \<open>What \<open>new URL\<close> makes of the one URL of the examples.\<close>

definition exampleParser :: urlParser where
  "exampleParser url =
     (if url = ''https://api.example.com/v1''
      then Some \<lparr>protocol = ''https:'', hostname = ''api.example.com''\<rparr>
      else None)"

text \<open>\<open>createDefaultPolicy\<close> of policy.ts, and a gateway with no tool registered.\<close>

definition createDefaultPolicy :: PolicyConfig where
  "createDefaultPolicy =
     \<lparr>default_deny = True, allow_tools = [], deny_tools = [], per_tool = [],
      global_timeout_ms = 30000, global_max_bytes = 10 * 1024 * 1024\<rparr>"

definition emptyGateway :: MCPGateway where
  "emptyGateway =
     \<lparr>tools = [], policy = createDefaultPolicy, audit = \<lparr>enabled = True, file_path = None\<rparr>,
      gatewayActor = ''local-user''\<rparr>"

text \<open>What \<open>new URL\<close> makes of a URL whose host has the label \<open>*\<close>.\<close>

definition wildcardHostParser :: urlParser where
  "wildcardHostParser url =
     (if url = ''http://*.example.com/''
      then Some \<lparr>protocol = ''http:'', hostname = ''*.example.com''\<rparr>
      else None)"

text \<open>The two tools of the registration tests.\<close>

definition toolA :: ToolDefinition where
  "toolA = \<lparr>name = ''test.tool1'', description = ''Tool 1'', inputSchema = (\<lambda>a. Parsed []),
            handler = (\<lambda>_. Some (0, Returns (JStr ''result1'')))\<rparr>"

definition toolB :: ToolDefinition where
  "toolB = \<lparr>name = ''test.tool2'', description = ''Tool 2'', inputSchema = (\<lambda>a. Parsed []),
            handler = (\<lambda>_. Some (0, Returns (JStr ''result2'')))\<rparr>"

text \<open>
  A platform for the examples: the digest is left symbolic, and no pattern is accepted
  by \<open>new RegExp\<close>.
\<close>

definition testPlatform :: Platform where
  "testPlatform =
     \<lparr>sha256hex = (\<lambda>s. ''sha256:'' @ s),
      randomUUID = ''550e8400-e29b-41d4-a716-446655440000'',
      nowAtStart = 1000, nowAtLog = 1002,
      newRegExp = (\<lambda>pattern. None)\<rparr>"

text \<open>
  The tool \<open>custom.echo\<close> of the integration tests: \<open>message\<close> is a required string,
  \<open>uppercase\<close> a boolean with the default \<open>false\<close>, and a key the schema does not name is
  dropped.  The gateway registers it with a per-tool record whose allowlist names
  \<open>message\<close> only.
\<close>

definition echoSchema :: "args \<Rightarrow> parsed" where
  "echoSchema a =
     (case map_of a ''message'' of
        Some (JStr m) \<Rightarrow>
          (case map_of a ''uppercase'' of
             None \<Rightarrow> Parsed [(''message'', JStr m), (''uppercase'', JBool False)]
           | Some JUndefined \<Rightarrow> Parsed [(''message'', JStr m), (''uppercase'', JBool False)]
           | Some (JBool b) \<Rightarrow> Parsed [(''message'', JStr m), (''uppercase'', JBool b)]
           | Some _ \<Rightarrow> ZodError ''uppercase: Expected boolean'')
      | _ \<Rightarrow> ZodError ''message: Required'')"

definition echoHandler :: "args \<Rightarrow> (nat \<times> outcome) option" where
  "echoHandler data =
     (case (map_of data ''message'', map_of data ''uppercase'') of
        (Some (JStr m), Some (JBool True)) \<Rightarrow> Some (0, Returns (JObj [(''echo'', JStr (toUpperCase m))]))
      | (Some (JStr m), _) \<Rightarrow> Some (0, Returns (JObj [(''echo'', JStr m)]))
      | _ \<Rightarrow> Some (0, Throws (OtherError ''message is not a string'')))"

definition echoTool :: ToolDefinition where
  "echoTool = \<lparr>name = ''custom.echo'', description = ''Echoes the input message'',
               inputSchema = echoSchema, handler = echoHandler\<rparr>"

definition echoGateway :: MCPGateway where
  "echoGateway =
     \<lparr>tools = [(''custom.echo'', echoTool)],
      policy = \<lparr>default_deny = True, allow_tools = [], deny_tools = [],
                per_tool = [(''custom.echo'',
                   \<lparr>allow = Some True, max_bytes = None, timeout_ms = None,
                    arg_allowlist = Some [(''message'', JBool True)]\<rparr>)],
                global_timeout_ms = 5000, global_max_bytes = 1000000\<rparr>,
      audit = \<lparr>enabled = True, file_path = None\<rparr>,
      gatewayActor = ''test-user''\<rparr>"




text \<open>A policy that names one tool in \<open>deny_tools\<close>, in \<open>allow_tools\<close> and in \<open>per_tool\<close>.\<close>

definition denyWinsPolicy :: PolicyConfig where
  "denyWinsPolicy =
     \<lparr>default_deny = False, allow_tools = [''fs.readFile''], deny_tools = [''fs.readFile''],
      per_tool = [(''fs.readFile'',
         \<lparr>allow = Some True, max_bytes = None, timeout_ms = None,
          arg_allowlist = Some [(''path'', JBool True),
                                (''encoding'', JArr [JStr ''utf-8'', JStr ''base64''])]\<rparr>)],
      global_timeout_ms = 30000, global_max_bytes = 1000000\<rparr>"



section \<open>Path confinement\<close>

text \<open>
  C1.  Descendants are meant to be decided at segment boundaries.  \<open>isPathAllowed\<close> tests
  the textual prefix instead: with \<open>/all\<close> as the only allowed path, the path \<open>/allow/foo\<close>
  is allowed by \<open>isPathAllowed\<close> and returned by \<open>validatePath\<close>, although it is neither
  \<open>/all\<close> nor below it, and the handler of \<open>fs.readFile\<close> goes on to the filesystem with it.
\<close>

theorem prefix_confinement_evaluation:
  "isPathAllowed ''/srv'' ''/allow/foo'' [''/all''] []
   \<and> validatePath ''/srv'' ''/allow/foo'' [''/all''] [] = Inr ''/allow/foo''
   \<and> fsReadFile \<lparr>fs_enabled = True, allowed_paths = [''/all''], denied_paths = [],
                   max_file_size = 5242880\<rparr> ''/srv'' io ''/allow/foo'' = io ''/allow/foo''"
proof -
  have a: "isPathAllowed ''/srv'' ''/allow/foo'' [''/all''] []"
    by code_simp
  have v: "validatePath ''/srv'' ''/allow/foo'' [''/all''] [] = Inr ''/allow/foo''"
    by code_simp
  from a v show ?thesis by (simp add: fsReadFile_def)
qed

section \<open>Per-tool records after the configuration schema\<close>

text \<open>
  C5.  A per-tool record that sets only \<open>timeout_ms\<close> and \<open>max_bytes\<close>, for a tool listed in
  \<open>allow_tools\<close>: the schema fills in \<open>allow = false\<close>, and \<open>checkPolicy\<close> on the parsed
  configuration denies the tool as explicitly denied, whatever the arguments.
\<close>

theorem limits_only_entry_denied:
  "\<exists>config d. parsePolicyConfig securityGuidePolicy = Inr config
      \<and> ''db.query'' \<in> set (allow_tools config)
      \<and> checkPolicy rx config ''db.query'' a = Inr d
      \<and> \<not> allowed d
      \<and> reason d = ''Tool '' @ dq @ ''db.query'' @ dq @ '' is explicitly denied in per_tool policy''"
  by (simp add: securityGuidePolicy_def parsePolicyConfig_def parseToolPolicy_def positiveOpt_def
      withDefault_def checkPolicy_def Let_def)

section \<open>Empty allowlists\<close>

lemma isPathAllowed_empty: "isPathAllowed cwd p [] denied = False"
  by (simp add: isPathAllowed_def Let_def)

lemma validatePath_empty: "\<exists>m. validatePath cwd p [] denied = Inl (SecurityError m)"
  by (auto simp: validatePath_def Let_def isPathAllowed_empty)

lemma validateUrl_empty:
  "allowed_domains config = [] \<Longrightarrow> \<exists>m. validateUrl parseURL url config = Inl (SecurityError m)"
  by (auto simp: validateUrl_def isDomainAllowed_def Let_def split: option.splits)

text \<open>
  C8.  With an empty \<open>allowed_paths\<close> the handlers of \<open>fs.readFile\<close> and \<open>fs.listDir\<close> throw a
  \<open>SecurityError\<close> for every path, and with an empty \<open>allowed_domains\<close> the handler of
  \<open>web.fetch\<close> throws a \<open>SecurityError\<close> for every URL.
\<close>

theorem empty_allowlists_reject:
  "(allowed_paths fc = [] \<longrightarrow>
      (\<exists>m. fsReadFile fc cwd io path = Throws (SecurityError m)) \<and>
      (\<exists>m. fsListDir fc cwd io path = Throws (SecurityError m))) \<and>
   (allowed_domains hc = [] \<longrightarrow>
      (\<exists>m. webFetch hc parseURL fetchIt url = Throws (SecurityError m)))"
proof (intro conjI impI)
  assume e: "allowed_paths fc = []"
  from validatePath_empty [of cwd path "denied_paths fc"]
  obtain m where m: "validatePath cwd path [] (denied_paths fc) = Inl (SecurityError m)" ..
  show "\<exists>m. fsReadFile fc cwd io path = Throws (SecurityError m)"
    using e m by (auto simp: fsReadFile_def)
  show "\<exists>m. fsListDir fc cwd io path = Throws (SecurityError m)"
    using e m by (auto simp: fsListDir_def)
next
  assume e: "allowed_domains hc = []"
  from validateUrl_empty [OF e, of parseURL url]
  obtain m where "validateUrl parseURL url hc = Inl (SecurityError m)" ..
  then show "\<exists>m. webFetch hc parseURL fetchIt url = Throws (SecurityError m)"
    by (auto simp: webFetch_def)
qed

theorem empty_allowlists_reject_witness:
  "allowed_paths \<lparr>fs_enabled = True, allowed_paths = [], denied_paths = [], max_file_size = 5242880\<rparr> = []
   \<and> (\<exists>m. fsReadFile \<lparr>fs_enabled = True, allowed_paths = [], denied_paths = [], max_file_size = 5242880\<rparr>
              ''/srv'' (\<lambda>p. Returns (JStr p)) ''/etc/passwd'' = Throws (SecurityError m))
   \<and> allowed_domains \<lparr>http_enabled = True, allowed_domains = [], denied_domains = [],
         max_response_bytes = 5242880, http_timeout_ms = 10000\<rparr> = []
   \<and> (\<exists>m. webFetch \<lparr>http_enabled = True, allowed_domains = [], denied_domains = [],
                max_response_bytes = 5242880, http_timeout_ms = 10000\<rparr>
              exampleParser (\<lambda>u. Returns JNull) ''https://api.example.com/v1'' = Throws (SecurityError m))"
  using empty_allowlists_reject [of
      "\<lparr>fs_enabled = True, allowed_paths = [], denied_paths = [], max_file_size = 5242880\<rparr>"
      "''/srv''" "\<lambda>p. Returns (JStr p)" "''/etc/passwd''"
      "\<lparr>http_enabled = True, allowed_domains = [], denied_domains = [],
        max_response_bytes = 5242880, http_timeout_ms = 10000\<rparr>"
      exampleParser "\<lambda>u. Returns JNull" "''https://api.example.com/v1''"]
  by simp

section \<open>Bulk registration\<close>

lemma registerTools_fresh_prefix:
  "distinct (map name pre) \<Longrightarrow> \<forall>p\<in>set pre. map_of (tools gw) (name p) = None \<Longrightarrow>
   registerTools gw (pre @ rest) =
     registerTools (gw\<lparr>tools := tools gw @ map (\<lambda>p. (name p, p)) pre\<rparr>) rest"
proof (induction pre arbitrary: gw)
  case Nil
  then show ?case by simp
next
  case (Cons p pre)
  let ?gw = "gw\<lparr>tools := tools gw @ [(name p, p)]\<rparr>"
  from Cons.prems have fresh: "map_of (tools gw) (name p) = None" by simp
  have step: "registerTools gw ((p # pre) @ rest) = registerTools ?gw (pre @ rest)"
    using fresh by (simp add: registerTool_def)
  have f: "\<forall>q\<in>set pre. map_of (tools ?gw) (name q) = None"
  proof
    fix q assume q: "q \<in> set pre"
    with Cons.prems have "map_of (tools gw) (name q) = None" and "name q \<noteq> name p"
      by (auto simp: image_iff)
    then show "map_of (tools ?gw) (name q) = None"
      by (simp add: map_add_def)
  qed
  from Cons.prems have d: "distinct (map name pre)" by simp
  have "registerTools ?gw (pre @ rest) =
      registerTools (?gw\<lparr>tools := tools ?gw @ map (\<lambda>p. (name p, p)) pre\<rparr>) rest"
    using d f by (rule Cons.IH)
  with step show ?case by simp
qed

lemma map_of_registered:
  "distinct (map name pre) \<Longrightarrow> p \<in> set pre \<Longrightarrow> map_of old (name p) = None \<Longrightarrow>
   map_of (old @ map (\<lambda>p. (name p, p)) pre) (name p) = Some p"
proof -
  assume d: "distinct (map name pre)" and p: "p \<in> set pre" and o: "map_of old (name p) = None"
  have "map_of (map (\<lambda>p. (name p, p)) pre) (name p) = Some p"
    using d p by (induction pre) (auto simp: rev_image_eqI)
  then show ?thesis using o by (simp add: map_add_def)
qed

text \<open>
  C9.  \<open>registerTools\<close> is not atomic.  When the tools \<open>pre\<close> have distinct names that are not
  registered and the next tool \<open>t\<close> has a name that is registered by then (before the call,
  or by one of \<open>pre\<close>), the call throws and leaves a gateway in which every tool of \<open>pre\<close> is
  registered: it is found by the lookup of \<open>invokeTool\<close> and listed by \<open>listTools\<close>.
\<close>

theorem registerTools_not_atomic:
  assumes "distinct (map name pre)"
    and "\<forall>p\<in>set pre. map_of (tools gw) (name p) = None"
    and "map_of (tools gw) (name t) \<noteq> None \<or> name t \<in> name ` set pre"
  shows "\<exists>gw' e. registerTools gw (pre @ t # post) = (gw', Some e)
           \<and> tools gw' = tools gw @ map (\<lambda>p. (name p, p)) pre
           \<and> (\<forall>p\<in>set pre. map_of (tools gw') (name p) = Some p \<and> name p \<in> set (listTools gw'))"
proof -
  let ?gw = "gw\<lparr>tools := tools gw @ map (\<lambda>p. (name p, p)) pre\<rparr>"
  have there: "map_of (tools ?gw) (name t) \<noteq> None"
  proof (cases "map_of (tools gw) (name t) = None")
    case True
    with assms(3) obtain p where "p \<in> set pre" "name t = name p" by auto
    then show ?thesis using map_of_registered [OF assms(1), of p "tools gw"] assms(2) by simp
  next
    case False
    then show ?thesis by (auto simp: map_add_def split: option.splits)
  qed
  have "registerTools gw (pre @ t # post) = registerTools ?gw (t # post)"
    using assms(1,2) by (rule registerTools_fresh_prefix)
  also have "\<dots> = (?gw, Some (OtherError (''Tool '' @ dq @ name t @ dq @ '' is already registered'')))"
    using there by (simp add: registerTool_def)
  finally have r: "registerTools gw (pre @ t # post) =
      (?gw, Some (OtherError (''Tool '' @ dq @ name t @ dq @ '' is already registered'')))" .
  have "\<forall>p\<in>set pre. map_of (tools ?gw) (name p) = Some p \<and> name p \<in> set (listTools ?gw)"
    using map_of_registered [OF assms(1)] assms(2) by (auto simp: listTools_def)
  with r show ?thesis by simp
qed

theorem registerTools_not_atomic_witness:
  "\<exists>gw' e. registerTools emptyGateway [toolA, toolA, toolB] = (gw', Some e)
      \<and> map_of (tools gw') ''test.tool1'' = Some toolA
      \<and> listTools gw' = [''test.tool1'']"
  using registerTools_not_atomic [of "[toolA]" emptyGateway toolA "[toolB]"]
  by (auto simp: emptyGateway_def toolA_def listTools_def)

section \<open>Wildcards in domain lists\<close>

lemma toLowerCase_wildcard:
  "toLowerCase (CHR ''*'' # CHR ''.'' # base) = CHR ''*'' # CHR ''.'' # toLowerCase base"
  by (simp add: toLowerCase_def lowerChar_def)

lemma deniedMatches_wildcard:
  "deniedMatches host (''*.'' @ base) \<longleftrightarrow>
     host = ''*.'' @ toLowerCase base \<or> endsWith host (''.*.'' @ toLowerCase base)"
  by (simp add: deniedMatches_def toLowerCase_wildcard Let_def)

lemma allowedMatches_wildcard:
  "host = toLowerCase base \<or> endsWith host (''.'' @ toLowerCase base) \<Longrightarrow>
   allowedMatches host (''*.'' @ base)"
  by (simp add: allowedMatches_def toLowerCase_wildcard Let_def startsWith_def)

lemma wildcard_deny_needs_star:
  assumes "startsWith d ''*.''" and "deniedMatches host d"
  shows "CHR ''*'' \<in> set host"
proof -
  from assms(1) obtain base where d: "d = ''*.'' @ base"
    by (auto simp: startsWith_def prefix_def)
  from assms(2) have "host = ''*.'' @ toLowerCase base \<or> suffix (''.*.'' @ toLowerCase base) host"
    unfolding d deniedMatches_wildcard endsWith_def .
  then show ?thesis by (auto simp: suffix_def)
qed

lemma deniedMatches_not_base: "\<not> deniedMatches (toLowerCase base) (''*.'' @ base)"
proof
  assume "deniedMatches (toLowerCase base) (''*.'' @ base)"
  then have "toLowerCase base = ''*.'' @ toLowerCase base
      \<or> suffix (''.*.'' @ toLowerCase base) (toLowerCase base)"
    unfolding deniedMatches_wildcard endsWith_def .
  then show False
  proof
    assume "toLowerCase base = ''*.'' @ toLowerCase base"
    then have "length (toLowerCase base) = length (''*.'' @ toLowerCase base)" by simp
    then show False by simp
  next
    assume "suffix (''.*.'' @ toLowerCase base) (toLowerCase base)"
    then have "length (''.*.'' @ toLowerCase base) \<le> length (toLowerCase base)"
      by (rule suffix_length_le)
    then show False by simp
  qed
qed

text \<open>
  A wildcard deny entry does match a host: the URL parser accepts the label \<open>*\<close>, and
  for the host \<open>*.example.com\<close> the entry \<open>*.example.com\<close> of \<open>denied_domains\<close> turns an
  allowed URL into a refused one.
\<close>

theorem wildcard_deny_counterexample:
  "deniedMatches ''*.example.com'' ''*.example.com''
   \<and> isDomainAllowed wildcardHostParser ''http://*.example.com/'' [''example.com''] []
   \<and> \<not> isDomainAllowed wildcardHostParser ''http://*.example.com/'' [''example.com'']
         [''*.example.com'']"
  by (simp add: wildcardHostParser_def isDomainAllowed_def deniedMatches_def allowedMatches_def
      toLowerCase_def lowerChar_def endsWith_def startsWith_def suffix_def Let_def)

text \<open>
  C10 (as amended).  Wildcards are honoured on the allow side only.  An allowed entry
  \<open>*.base\<close> admits the host \<open>base\<close> and every host ending in \<open>.base\<close> (when no denied entry
  matches).  A denied entry \<open>*.base\<close> is compared as literal text: it matches exactly the
  hosts that are \<open>*.base\<close> or end in \<open>.*.base\<close>.  So it does not match \<open>base\<close>, it matches
  no host name free of the character \<open>*\<close>, and for such a host a list of wildcard deny
  entries decides like the empty list.
\<close>

theorem wildcard_only_on_allow_side:
  assumes "parseURL url = Some u" and "host = toLowerCase (hostname u)"
  shows "(''*.'' @ base \<in> set allowedDomains
            \<and> \<not> list_ex (deniedMatches host) deniedDomains
            \<and> (host = toLowerCase base \<or> endsWith host (''.'' @ toLowerCase base))
          \<longrightarrow> isDomainAllowed parseURL url allowedDomains deniedDomains)
       \<and> (deniedMatches host (''*.'' @ base) \<longleftrightarrow>
            host = ''*.'' @ toLowerCase base \<or> endsWith host (''.*.'' @ toLowerCase base))
       \<and> \<not> deniedMatches (toLowerCase base) (''*.'' @ base)
       \<and> (CHR ''*'' \<notin> set host \<and> (\<forall>d\<in>set deniedDomains. startsWith d ''*.'')
          \<longrightarrow> isDomainAllowed parseURL url allowedDomains deniedDomains
              = isDomainAllowed parseURL url allowedDomains [])"
proof (intro conjI impI)
  assume a: "''*.'' @ base \<in> set allowedDomains
      \<and> \<not> list_ex (deniedMatches host) deniedDomains
      \<and> (host = toLowerCase base \<or> endsWith host (''.'' @ toLowerCase base))"
  then have "allowedMatches host (''*.'' @ base)"
    by (intro allowedMatches_wildcard) simp
  with a have "list_ex (allowedMatches host) allowedDomains"
    by (auto simp: list_ex_iff)
  moreover from a have "allowedDomains \<noteq> []" by auto
  ultimately show "isDomainAllowed parseURL url allowedDomains deniedDomains"
    using a assms by (simp add: isDomainAllowed_def Let_def)
next
  show "deniedMatches host (''*.'' @ base) \<longleftrightarrow>
      host = ''*.'' @ toLowerCase base \<or> endsWith host (''.*.'' @ toLowerCase base)"
    by (rule deniedMatches_wildcard)
next
  show "\<not> deniedMatches (toLowerCase base) (''*.'' @ base)"
    by (rule deniedMatches_not_base)
next
  assume a: "CHR ''*'' \<notin> set host \<and> (\<forall>d\<in>set deniedDomains. startsWith d ''*.'')"
  then have "\<not> list_ex (deniedMatches host) deniedDomains"
    using wildcard_deny_needs_star [of _ host] by (auto simp: list_ex_iff)
  then show "isDomainAllowed parseURL url allowedDomains deniedDomains
      = isDomainAllowed parseURL url allowedDomains []"
    using assms by (simp add: isDomainAllowed_def Let_def)
qed

theorem wildcard_only_on_allow_side_witness:
  "exampleParser ''https://api.example.com/v1''
      = Some \<lparr>protocol = ''https:'', hostname = ''api.example.com''\<rparr>
   \<and> isDomainAllowed exampleParser ''https://api.example.com/v1'' [''*.example.com''] [''*.example.com'']
   \<and> \<not> deniedMatches ''api.example.com'' ''*.example.com''"
  using wildcard_only_on_allow_side [of exampleParser "''https://api.example.com/v1''"
      "\<lparr>protocol = ''https:'', hostname = ''api.example.com''\<rparr>" "''api.example.com''"
      "''example.com''" "[''*.example.com'']" "[''*.example.com'']"]
  by (simp add: exampleParser_def toLowerCase_def lowerChar_def endsWith_def startsWith_def
      deniedMatches_def suffix_def Let_def)

section \<open>Decision order of the policy engine\<close>

lemma arrayIncludes_iff: "arrayIncludes xs v \<longleftrightarrow> v \<in> set (filter isPrimitive xs)"
  by (auto simp: arrayIncludes_def list_ex_iff strictEq_def)

lemma strictEq_iff: "strictEq v e \<longleftrightarrow> isPrimitive e \<and> v = e"
  by (auto simp: strictEq_def)

lemma checkArgValue_continue:
  "checkArgValue rx k v e = Inr None \<Longrightarrow> entryAccepts rx e v"
  by (cases e)
    (auto simp: checkArgValue_def entryAccepts_def arrayIncludes_iff strictEq_iff startsWith_def
      split: if_splits option.splits json.splits)

lemma checkArgValue_deny:
  "checkArgValue rx k v e = Inr (Some r) \<Longrightarrow> \<not> entryAccepts rx e v"
  by (cases e)
    (auto simp: checkArgValue_def entryAccepts_def arrayIncludes_iff strictEq_iff startsWith_def
      split: if_splits option.splits json.splits)

lemma checkArgAllowlist_violated:
  "checkArgAllowlist rx a allowlist = Inr res \<Longrightarrow> fst res = (\<not> allowlistViolated rx a allowlist)"
proof (induction a)
  case Nil
  then show ?case by (auto simp: allowlistViolated_def)
next
  case (Cons kv rest)
  show ?case
  proof (cases "map_of allowlist (fst kv)")
    case None
    with Cons.prems show ?thesis by (auto simp: allowlistViolated_def split: if_splits)
  next
    case (Some e)
    show ?thesis
    proof (cases "checkArgValue rx (fst kv) (snd kv) e")
      case (Inl err)
      with Some Cons.prems show ?thesis by simp
    next
      case (Inr step)
      show ?thesis
      proof (cases step)
        case None
        with Inr have "entryAccepts rx e (snd kv)" by (simp add: checkArgValue_continue)
        moreover from None Inr Some Cons.prems have "checkArgAllowlist rx rest allowlist = Inr res"
          by simp
        ultimately show ?thesis
          using Cons.IH Some by (simp add: allowlistViolated_def)
      next
        case (Some r)
        with Inr have "\<not> entryAccepts rx e (snd kv)" by (simp add: checkArgValue_deny)
        moreover from Some Inr \<open>map_of allowlist (fst kv) = Some e\<close> Cons.prems
        have "fst res = False" by auto
        ultimately show ?thesis
          using \<open>map_of allowlist (fst kv) = Some e\<close> by (simp add: allowlistViolated_def)
      qed
    qed
  qed
qed

lemma checkArgValue_total:
  "(case e of JStr s \<Rightarrow> \<not> prefix ''regex:'' s \<or> rx (drop 6 s) \<noteq> None | _ \<Rightarrow> True) \<Longrightarrow>
   \<exists>step. checkArgValue rx k v e = Inr step"
  by (cases e) (auto simp: checkArgValue_def startsWith_def split: if_splits option.splits json.splits)

lemma checkArgAllowlist_total:
  assumes "list_all (\<lambda>kv. case snd kv of
                            JStr s \<Rightarrow> \<not> prefix ''regex:'' s \<or> rx (drop 6 s) \<noteq> None
                          | _ \<Rightarrow> True) allowlist"
  shows "\<exists>res. checkArgAllowlist rx a allowlist = Inr res"
proof (induction a)
  case Nil
  then show ?case by auto
next
  case (Cons kv rest)
  show ?case
  proof (cases "map_of allowlist (fst kv)")
    case None
    then show ?thesis by auto
  next
    case (Some e)
    then have "(fst kv, e) \<in> set allowlist" by (rule map_of_SomeD)
    with assms have "case e of JStr s \<Rightarrow> \<not> prefix ''regex:'' s \<or> rx (drop 6 s) \<noteq> None | _ \<Rightarrow> True"
      by (auto simp: list_all_iff)
    then obtain step where "checkArgValue rx (fst kv) (snd kv) e = Inr step"
      using checkArgValue_total by blast
    with Some Cons.IH show ?thesis by (cases step) auto
  qed
qed

lemma checkGlobalLists_allowed:
  "allowed (checkGlobalLists config t ep) = (t \<in> set (allow_tools config) \<or> \<not> default_deny config)"
  by (simp add: checkGlobalLists_def)

lemma checkPolicy_follows_order:
  assumes "checkPolicy rx config t a = Inr d"
  shows "allowed d = decisionOrder rx config t a"
proof (cases "t \<in> set (deny_tools config)")
  case True
  with assms show ?thesis by (auto simp: checkPolicy_def decisionOrder_def Let_def)
next
  case notDenied: False
  show ?thesis
  proof (cases "map_of (per_tool config) t")
    case None
    with notDenied assms show ?thesis
      by (auto simp: checkPolicy_def decisionOrder_def Let_def checkGlobalLists_allowed)
  next
    case (Some tp)
    show ?thesis
    proof (cases "allow tp = Some False")
      case True
      with Some notDenied assms show ?thesis
        by (auto simp: checkPolicy_def decisionOrder_def Let_def)
    next
      case notFalse: False
      show ?thesis
      proof (cases "arg_allowlist tp")
        case None
        with notFalse Some notDenied assms show ?thesis
          by (auto simp: checkPolicy_def decisionOrder_def Let_def checkGlobalLists_allowed
              split: if_splits)
      next
        case al: (Some allowlist)
        from assms al notFalse Some notDenied
        obtain res where res: "checkArgAllowlist rx a allowlist = Inr res"
          by (auto simp: checkPolicy_def Let_def split: sum.splits)
        then have v: "fst res = (\<not> allowlistViolated rx a allowlist)"
          by (rule checkArgAllowlist_violated)
        from assms al notFalse Some notDenied res v show ?thesis
          by (auto simp: checkPolicy_def decisionOrder_def Let_def checkGlobalLists_allowed
              split: if_splits)
      qed
    qed
  qed
qed

lemma checkPolicy_total:
  assumes "patternsCompile rx config t"
  shows "\<exists>d. checkPolicy rx config t a = Inr d"
proof (cases "map_of (per_tool config) t")
  case None
  then show ?thesis by (simp add: checkPolicy_def Let_def)
next
  case (Some tp)
  show ?thesis
  proof (cases "arg_allowlist tp")
    case None
    with Some show ?thesis by (simp add: checkPolicy_def Let_def)
  next
    case al: (Some allowlist)
    with Some assms obtain res where "checkArgAllowlist rx a allowlist = Inr res"
      using checkArgAllowlist_total [of rx allowlist a] by (auto simp: patternsCompile_def)
    with al Some show ?thesis by (simp add: checkPolicy_def Let_def)
  qed
qed

lemma checkPolicy_deny_first:
  "t \<in> set (deny_tools config) \<Longrightarrow> \<exists>d. checkPolicy rx config t a = Inr d \<and> \<not> allowed d"
  by (simp add: checkPolicy_def Let_def)

text \<open>
  C2.  Whenever \<open>checkPolicy\<close> returns a decision, the decision is the one the fixed order
  gives: \<open>deny_tools\<close> first, then the per-tool record (\<open>allow\<close> explicitly false, a violated
  allowlist, \<open>allow\<close> explicitly true), then \<open>allow_tools\<close>, then \<open>default_deny\<close>, then allow.
  It returns a decision for every tool and all arguments as long as the \<open>regex:\<close> entries
  of the tool's allowlist are patterns the engine accepts, and for a tool in \<open>deny_tools\<close>
  it returns a denial whatever \<open>allow_tools\<close> and the per-tool record say.
\<close>

theorem checkPolicy_decision_order:
  "(\<forall>d. checkPolicy rx config t a = Inr d \<longrightarrow> allowed d = decisionOrder rx config t a)
   \<and> (patternsCompile rx config t \<longrightarrow> (\<exists>d. checkPolicy rx config t a = Inr d))
   \<and> (t \<in> set (deny_tools config) \<longrightarrow> (\<exists>d. checkPolicy rx config t a = Inr d \<and> \<not> allowed d))"
  using checkPolicy_follows_order checkPolicy_total checkPolicy_deny_first by blast


theorem checkPolicy_decision_order_witness:
  "patternsCompile (newRegExp testPlatform) denyWinsPolicy ''fs.readFile''
   \<and> ''fs.readFile'' \<in> set (deny_tools denyWinsPolicy)
   \<and> ''fs.readFile'' \<in> set (allow_tools denyWinsPolicy)
   \<and> (\<exists>d. checkPolicy (newRegExp testPlatform) denyWinsPolicy ''fs.readFile''
              [(''path'', JStr ''/tmp/data/hello.txt'')] = Inr d
          \<and> \<not> allowed d)
   \<and> \<not> decisionOrder (newRegExp testPlatform) denyWinsPolicy ''fs.readFile''
          [(''path'', JStr ''/tmp/data/hello.txt'')]"
  using checkPolicy_decision_order [of "newRegExp testPlatform" denyWinsPolicy "''fs.readFile''"
      "[(''path'', JStr ''/tmp/data/hello.txt'')]"]
  by (simp add: denyWinsPolicy_def patternsCompile_def decisionOrder_def)

section \<open>Audit events of an invocation\<close>















section \<open>The hash of the arguments\<close>







section \<open>What the policy and the handler receive\<close>

text \<open>
  The policy decision is not made on the parsed value.  The schema of \<open>custom.echo\<close> adds
  the default \<open>uppercase = false\<close> and the allowlist of the tool only has \<open>message\<close>: the
  call with \<open>message\<close> alone succeeds, although \<open>checkPolicy\<close> denies the parsed value.
\<close>

theorem policy_sees_parsed_counterexample:
  "validateArgs echoTool [(''message'', JStr ''hello'')]
      = Inr [(''message'', JStr ''hello''), (''uppercase'', JBool False)]
   \<and> fst (invokeTool testPlatform echoGateway ''custom.echo'' [(''message'', JStr ''hello'')])
      = \<lparr>success = True, result = Some (JObj [(''echo'', JStr ''hello'')]), error = None,
         resultRequestId = ''550e8400-e29b-41d4-a716-446655440000''\<rparr>
   \<and> checkPolicy (newRegExp testPlatform) (policy echoGateway) ''custom.echo''
         [(''message'', JStr ''hello''), (''uppercase'', JBool False)]
       = Inr \<lparr>allowed = False,
              reason = ''Argument '' @ dq @ ''uppercase'' @ dq @ '' is not in arg_allowlist'',
              effectivePolicy = \<lparr>timeoutMs = 5000, maxBytes = 1000000,
                                  argAllowlist = Some [(''message'', JBool True)]\<rparr>\<rparr>"
  by (simp add: validateArgs_def echoTool_def echoSchema_def echoHandler_def echoGateway_def
      testPlatform_def invokeTool_def createContext_def enforceAndExecute_def enforce_def
      checkPolicy_def checkArgValue_def objectPrototypeKeys_def executeWithTimeout_def timerDelay_def
      enforceMaxBytes_def
      getEffectivePolicy_def quoteJSON_def quoteChar_def byteLength_def dq_def Let_def)

text \<open>
  C6 (as amended).  For every invocation of a registered tool that passes validation,
  the policy decision is \<open>checkPolicy\<close> on the caller's raw arguments, and the handler
  is run on the parsed value: a denial of the raw arguments is the result
  \<open>POLICY_DENIED\<close>, and otherwise the result is what the handler makes of the parsed
  value within the limits of the decision.
\<close>

theorem policy_on_raw_handler_on_parsed:
  assumes "map_of (tools gw) n = Some t" and "validateArgs t a = Inr data"
  shows "(\<forall>d. checkPolicy (newRegExp pf) (policy gw) n a = Inr d \<and> \<not> allowed d \<longrightarrow>
            fst (invokeTool pf gw n a)
              = failure ''POLICY_DENIED'' (''Policy denied: '' @ reason d) (randomUUID pf))
       \<and> (\<forall>d. checkPolicy (newRegExp pf) (policy gw) n a = Inr d \<and> allowed d \<longrightarrow>
            fst (invokeTool pf gw n a)
              = (case executeWithTimeout n (handler t data) (timeoutMs (effectivePolicy d)) of
                   Inl e \<Rightarrow> failure (errorToCode e) (errorMessage e) (randomUUID pf)
                 | Inr r \<Rightarrow>
                     (case enforceMaxBytes r (maxBytes (effectivePolicy d)) of
                        Inl e \<Rightarrow> failure (errorToCode e) (errorMessage e) (randomUUID pf)
                      | Inr _ \<Rightarrow> \<lparr>success = True, result = Some r, error = None,
                                  resultRequestId = randomUUID pf\<rparr>)))"
  using assms
  by (auto simp: invokeTool_def createContext_def enforceAndExecute_def enforce_def
      PolicyDeniedError_def Let_def split: sum.splits)


theorem policy_on_raw_handler_on_parsed_witness:
  "map_of (tools echoGateway) ''custom.echo'' = Some echoTool
   \<and> validateArgs echoTool [(''message'', JStr ''hello''), (''extra'', JNum ''1'')]
       = Inr [(''message'', JStr ''hello''), (''uppercase'', JBool False)]
   \<and> fst (invokeTool testPlatform echoGateway ''custom.echo''
            [(''message'', JStr ''hello''), (''extra'', JNum ''1'')])
       = failure ''POLICY_DENIED''
           (''Policy denied: Argument '' @ dq @ ''extra'' @ dq @ '' is not in arg_allowlist'')
           ''550e8400-e29b-41d4-a716-446655440000''"
  using policy_on_raw_handler_on_parsed [of echoGateway "''custom.echo''" echoTool
      "[(''message'', JStr ''hello''), (''extra'', JNum ''1'')]"
      "[(''message'', JStr ''hello''), (''uppercase'', JBool False)]" testPlatform]
  by (simp add: echoGateway_def echoTool_def echoSchema_def validateArgs_def testPlatform_def
      checkPolicy_def checkArgValue_def objectPrototypeKeys_def getEffectivePolicy_def Let_def)

section \<open>The read-only verifier\<close>

text \<open>
  C7.  The verifier is meant to refuse a string with a second statement or a blocked
  keyword.  It removes everything from \<open>--\<close> to the end of the line before it looks, also
  when the \<open>--\<close> is inside a string literal: the query \<open>SELECT '--'; DROP TABLE users\<close> is
  accepted, because what is checked is the text \<open>SELECT '\<close>.  The string itself splits
  at \<open>;\<close> into two non-empty segments and has \<open>DROP\<close> as a whole word by the verifier's own
  test, and the handler of \<open>db.query\<close> passes that string on.  A \<open>--\<close> inside a block
  comment hides the end of the comment in the same way.
\<close>

theorem string_literal_hides_statement:
  "validateReadOnlyQuery ''SELECT '--'; DROP TABLE users'' = Inr ()
   \<and> normalizeSql ''SELECT '--'; DROP TABLE users'' = ''SELECT '' @ [CHR 0x27]
   \<and> length (statementParts ''SELECT '--'; DROP TABLE users'') = 2
   \<and> testWord False ''DROP'' ''SELECT '--'; DROP TABLE users''
   \<and> dbQuery execute ''SELECT '--'; DROP TABLE users'' params
       = execute ''SELECT '--'; DROP TABLE users'' params
   \<and> validateReadOnlyQuery ''SELECT /* -- */ 1; DROP TABLE t'' = Inr ()"
proof -
  have v: "validateReadOnlyQuery ''SELECT '--'; DROP TABLE users'' = Inr ()"
    by code_simp
  have n: "normalizeSql ''SELECT '--'; DROP TABLE users'' = ''SELECT '' @ [CHR 0x27]"
    by code_simp
  have p: "length (statementParts ''SELECT '--'; DROP TABLE users'') = 2"
    by code_simp
  have w: "testWord False ''DROP'' ''SELECT '--'; DROP TABLE users''"
    by code_simp
  have b: "validateReadOnlyQuery ''SELECT /* -- */ 1; DROP TABLE t'' = Inr ()"
    by code_simp
  from v n p w b show ?thesis by (simp add: dbQuery_def)
qed

end
